theory Spec2Isabelle
  imports Complex_Main "HOL-Library.AList"
begin

section \<open>The MySQL session store of \<^verbatim>\<open>src/index.ts\<close>\<close>

text \<open>
  The class \<^verbatim>\<open>MySQLStore\<close> is embedded by explicit state passing. A method takes the
  store and returns the store afterwards, together with what the caller can observe: the
  list of invocations of its completion callback, and the exception it throws. The
  database connection is held by the store, as in the source, and carries the rows of
  the session table. Calls of the logger change neither the store nor the table and are
  left out.
\<close>

subsection \<open>Values and errors\<close>

text \<open>
  The lifecycle states are the five strings the field \<^verbatim>\<open>state\<close> takes.
\<close>

datatype lifecycle = UNINITIALIZED | INITIALIZING | INITIALIZED | CLOSING | CLOSED

text \<open>
  Every exception of the source is a value: the two errors of configuration, the
  rejection of a query by the connection, the \<^verbatim>\<open>TypeError\<close> JavaScript raises on
  destructuring \<^verbatim>\<open>undefined\<close> or reading a property of it, and the \<^verbatim>\<open>SyntaxError\<close>
  of \<^verbatim>\<open>JSON.parse\<close>.
\<close>

datatype error =
    NoConnection
  | UnknownColumn string
  | QueryError string
  | TypeError
  | SyntaxError

text \<open>
  The values an expiry field of the cookie takes: \<^verbatim>\<open>null\<close> (an absent field behaves
  the same in every test the store makes), an integral number of milliseconds, or a
  \<^verbatim>\<open>Date\<close>. \<open>JDate t\<close> is the object \<^verbatim>\<open>new Date(t)\<close>.
\<close>

datatype jsval = JNull | JNumber int | JDate int

fun truthy :: "jsval \<Rightarrow> bool" where
  "truthy JNull = False"
| "truthy (JNumber n) = (n \<noteq> 0)"
| "truthy (JDate t) = True"

text \<open>
  The time value of \<^verbatim>\<open>new Date(t)\<close>: a \<^verbatim>\<open>Date\<close> holds at most 8.64e15
  milliseconds on either side of the epoch and is invalid beyond, with the time value
  \<^verbatim>\<open>NaN\<close> (\<open>None\<close>).
\<close>

definition TimeClip :: "int \<Rightarrow> int option" where
  "TimeClip t = (if \<bar>t\<bar> \<le> 8640000000000000 then Some t else None)"

text \<open>\<^verbatim>\<open>new Date(v).getTime()\<close>; \<^verbatim>\<open>new Date(null)\<close> is the epoch.\<close>

fun new_Date_getTime :: "jsval \<Rightarrow> int option" where
  "new_Date_getTime JNull = Some 0"
| "new_Date_getTime (JNumber n) = TimeClip n"
| "new_Date_getTime (JDate t) = TimeClip t"

text \<open>
  \<^verbatim>\<open>Math.round(ms / 1000)\<close>: \<^verbatim>\<open>Math.round\<close> rounds halves towards plus infinity, so
  on an integral number of milliseconds it is the floor of \<open>(ms + 500) / 1000\<close>.
\<close>

definition round_seconds :: "int \<Rightarrow> int" where
  "round_seconds ms = (ms + 500) div 1000"

subsection \<open>Configuration\<close>

text \<open>
  An object with string keys is an association list in insertion order, which is the order
  \<^verbatim>\<open>Object.keys\<close> lists the keys in that are not array indices. Nothing below
  depends on the order in which two keys stand.
\<close>

record store_schema =
  tableName :: string
  columnNames :: "(string \<times> string) list"

record store_options =
  clearExpired :: bool
  checkExpirationInterval :: int
  expiration :: int
  createDatabaseTable :: bool
  endConnectionOnClose :: bool
  disableTouch :: bool
  charset :: string
  schema :: store_schema

text \<open>
  The options object a caller passes: every key may be missing (\<open>None\<close>), at each of the
  three levels the setter spreads.
\<close>

record user_schema =
  u_tableName :: "string option"
  u_columnNames :: "(string \<times> string) list option"

record user_options =
  u_clearExpired :: "bool option"
  u_checkExpirationInterval :: "int option"
  u_expiration :: "int option"
  u_createDatabaseTable :: "bool option"
  u_endConnectionOnClose :: "bool option"
  u_disableTouch :: "bool option"
  u_charset :: "string option"
  u_schema :: "user_schema option"

definition defaultOptions :: store_options where
  "defaultOptions =
     \<lparr> clearExpired = True,
       checkExpirationInterval = 900000,
       expiration = 86400000 * 60,
       createDatabaseTable = True,
       endConnectionOnClose = True,
       disableTouch = False,
       charset = ''utf8mb4_bin'',
       schema = \<lparr> tableName = ''sessions'',
                  columnNames = [(''session_id'', ''session_id''),
                                 (''expires'', ''expires''),
                                 (''data'', ''data'')] \<rparr> \<rparr>"

text \<open>\<^verbatim>\<open>{...base, ...over}\<close> on objects: a key of \<open>over\<close> replaces the value in place or is added last.\<close>

definition spread :: "(string \<times> 'v) list \<Rightarrow> (string \<times> 'v) list \<Rightarrow> (string \<times> 'v) list" where
  "spread base over = foldl (\<lambda>acc (k, v). AList.update k v acc) base over"

definition or_else :: "'a option \<Rightarrow> 'a \<Rightarrow> 'a" where
  "or_else x d = (case x of None \<Rightarrow> d | Some v \<Rightarrow> v)"

subsection \<open>The session table and the connection\<close>

text \<open>
  A row of the session table: the primary key is the first component of the pair, the
  expiry is in whole seconds, the payload column is nullable text.
\<close>

record row =
  expires :: int
  data :: "string option"

type_synonym table = "(string \<times> row) list"

text \<open>
  The connection: the rows of the table the configured names denote, the number of
  statements it has been sent, and whether \<^verbatim>\<open>end()\<close> has been called on it.
\<close>

record db =
  tbl :: table
  issued :: nat
  ended :: bool

text \<open>
  The statements the store sends, each as the function on the table that the SQL text
  denotes, returning the result set and the table afterwards.
\<close>

text \<open>\<^verbatim>\<open>CREATE TABLE IF NOT EXISTS ?? (...)\<close>\<close>

definition sql_create_table :: "table \<Rightarrow> unit \<times> table" where
  "sql_create_table t = ((), t)"

text \<open>\<^verbatim>\<open>SELECT ?? AS data, ?? as expires FROM ?? WHERE ?? = ?\<close>\<close>

definition sql_select_by_id :: "string \<Rightarrow> table \<Rightarrow> row list \<times> table" where
  "sql_select_by_id sid t = (map snd (filter (\<lambda>(k, r). k = sid) t), t)"

text \<open>\<^verbatim>\<open>INSERT INTO ?? (??, ??, ??) VALUES (?, ?, ?) ON DUPLICATE KEY UPDATE ?? = VALUES(??), ?? = VALUES(??)\<close>\<close>

definition sql_upsert :: "string \<Rightarrow> int \<Rightarrow> string \<Rightarrow> table \<Rightarrow> unit \<times> table" where
  "sql_upsert sid e d t = ((), AList.update sid \<lparr> expires = e, data = Some d \<rparr> t)"

text \<open>\<^verbatim>\<open>UPDATE ?? SET ?? = ? WHERE ?? = ?\<close>\<close>

definition sql_update_expires :: "string \<Rightarrow> int \<Rightarrow> table \<Rightarrow> unit \<times> table" where
  "sql_update_expires sid e t =
     ((), map (\<lambda>(k, r). if k = sid then (k, r\<lparr>expires := e\<rparr>) else (k, r)) t)"

text \<open>\<^verbatim>\<open>DELETE FROM ?? WHERE ?? = ?\<close>\<close>

definition sql_delete_by_id :: "string \<Rightarrow> table \<Rightarrow> unit \<times> table" where
  "sql_delete_by_id sid t = ((), filter (\<lambda>(k, r). k \<noteq> sid) t)"

text \<open>\<^verbatim>\<open>SELECT COUNT(*) FROM ?? WHERE ?? >= ?\<close>: one row holding the count.\<close>

definition sql_count_live :: "int \<Rightarrow> table \<Rightarrow> nat list \<times> table" where
  "sql_count_live now t = ([length (filter (\<lambda>(k, r). expires r \<ge> now) t)], t)"

text \<open>\<^verbatim>\<open>SELECT * FROM ?? WHERE ?? >= ?\<close>\<close>

definition sql_select_live :: "int \<Rightarrow> table \<Rightarrow> (string \<times> row) list \<times> table" where
  "sql_select_live now t = (filter (\<lambda>(k, r). expires r \<ge> now) t, t)"

text \<open>\<^verbatim>\<open>DELETE FROM ??\<close>\<close>

definition sql_delete_all :: "table \<Rightarrow> unit \<times> table" where
  "sql_delete_all t = ((), [])"

text \<open>\<^verbatim>\<open>DELETE FROM ?? WHERE ?? < ?\<close>\<close>

definition sql_delete_expired :: "int \<Rightarrow> table \<Rightarrow> unit \<times> table" where
  "sql_delete_expired now t = ((), filter (\<lambda>(k, r). \<not> expires r < now) t)"

text \<open>
  \<^verbatim>\<open>connection.query(sql, params)\<close>. Whether the connection rejects the statement is
  not decided by the store: \<open>failure\<close> is \<open>Some e\<close> when it rejects with \<open>e\<close>, and then
  the statement has no effect on the rows.
\<close>

definition connection_query ::
  "error option \<Rightarrow> (table \<Rightarrow> 'r \<times> table) \<Rightarrow> db \<Rightarrow> (error + 'r) \<times> db" where
  "connection_query failure stmt c =
     (case failure of
        Some e \<Rightarrow> (Inl e, c\<lparr>issued := Suc (issued c)\<rparr>)
      | None \<Rightarrow>
          (case stmt (tbl c) of
             (r, t) \<Rightarrow> (Inr r, c\<lparr>tbl := t, issued := Suc (issued c)\<rparr>)))"

subsection \<open>The store\<close>

text \<open>
  The fields of the class. A waiter of \<^verbatim>\<open>onReadyPromises\<close> is named by a number; the
  armed timer is given by its period.
\<close>

record store =
  state :: lifecycle
  connection :: "db option"
  options :: store_options
  onReadyPromises :: "nat list"
  expirationInterval :: "int option"

text \<open>
  \<^verbatim>\<open>validateOptions\<close>: the first configured column key that is not a key of the
  default column names throws.
\<close>

definition validateOptions :: "store \<Rightarrow> error + unit" where
  "validateOptions s =
     (let allowedColumnNames = map fst (columnNames (schema defaultOptions));
          columnKeys = map fst (columnNames (schema (options s)))
      in case filter (\<lambda>userDefinedColumnName.
                        userDefinedColumnName \<notin> set allowedColumnNames) columnKeys of
           [] \<Rightarrow> Inr ()
         | userDefinedColumnName # _ \<Rightarrow> Inl (UnknownColumn userDefinedColumnName))"

text \<open>
  The assignments of the setter \<^verbatim>\<open>set options\<close>, before it validates: the private field
  is replaced by the spread of the defaults and the caller's object,
  \<^verbatim>\<open>endConnectionOnClose\<close> is overwritten by \<^verbatim>\<open>!this.connection\<close>, and the schema and
  its column names are spread again level by level.
\<close>

definition merged_options :: "user_options \<Rightarrow> store \<Rightarrow> store_options" where
  "merged_options u s =
     \<lparr> clearExpired = or_else (u_clearExpired u) (clearExpired defaultOptions),
       checkExpirationInterval =
         or_else (u_checkExpirationInterval u) (checkExpirationInterval defaultOptions),
       expiration = or_else (u_expiration u) (expiration defaultOptions),
       createDatabaseTable = or_else (u_createDatabaseTable u) (createDatabaseTable defaultOptions),
       endConnectionOnClose = (connection s = None),
       disableTouch = or_else (u_disableTouch u) (disableTouch defaultOptions),
       charset = or_else (u_charset u) (charset defaultOptions),
       schema =
         \<lparr> tableName =
             (case u_schema u of
                None \<Rightarrow> tableName (schema defaultOptions)
              | Some us \<Rightarrow> or_else (u_tableName us) (tableName (schema defaultOptions))),
           columnNames =
             spread (columnNames (schema defaultOptions))
               (case u_schema u of
                  None \<Rightarrow> []
                | Some us \<Rightarrow> or_else (u_columnNames us) []) \<rparr> \<rparr>"

text \<open>
  The setter: the field is assigned first, then \<^verbatim>\<open>validateOptions\<close> runs on the store
  as assigned. The result is the exception, if any, and the store afterwards.
\<close>

definition options_set :: "user_options \<Rightarrow> store \<Rightarrow> (error + unit) \<times> store" where
  "options_set u s =
     (let s' = s\<lparr>options := merged_options u s\<rparr>
      in (validateOptions s', s'))"

text \<open>
  The synchronous part of the constructor. The table is created and the sweeper started
  later, by \<open>initialize\<close> below, and only for a store the constructor has returned.
  The constructor has thrown when no connection was passed, so its later test
  \<^verbatim>\<open>!this.connection\<close>, which would create a pool, is never true and is left out.
\<close>

definition constructor :: "user_options option \<Rightarrow> db option \<Rightarrow> error + store" where
  "constructor opts conn =
     (case conn of
        None \<Rightarrow> Inl NoConnection
      | Some c \<Rightarrow>
          (let s = \<lparr> state = INITIALIZING, connection = Some c, options = defaultOptions,
                    onReadyPromises = [], expirationInterval = None \<rparr>
           in case (case opts of None \<Rightarrow> (Inr (), s) | Some u \<Rightarrow> options_set u s) of
                (Inl e, s') \<Rightarrow> Inl e
              | (Inr _, s') \<Rightarrow> Inr (s'\<lparr>onReadyPromises := []\<rparr>)))"

subsection \<open>Payloads and callbacks\<close>

text \<open>
  The payload \<^verbatim>\<open>data\<close> of \<^verbatim>\<open>set\<close> and \<^verbatim>\<open>touch\<close> is an object: its
  \<^verbatim>\<open>cookie\<close>, when it has one, with the fields \<^verbatim>\<open>expires\<close> and \<^verbatim>\<open>_expires\<close>,
  and the rest of its content.
\<close>

record cookie =
  cookie_expires :: jsval
  cookie_uexpires :: jsval

record 'a session_data =
  cookie :: "cookie option"
  content :: 'a

text \<open>
  One invocation of a completion callback: the error argument (\<open>None\<close> when it is
  \<^verbatim>\<open>null\<close> or not passed) and the result argument (\<open>None\<close> when not passed).
\<close>

datatype 'v call = Call "error option" "'v option"

text \<open>The settlement of the promise a waiter of \<^verbatim>\<open>onReady\<close> holds.\<close>

datatype settlement = Resolved | Rejected error

subsection \<open>The query primitive\<close>

text \<open>
  \<^verbatim>\<open>query\<close>: the rejection of the connection is caught and logged, and the method then
  returns \<^verbatim>\<open>undefined\<close> (\<open>None\<close>). The left summand of the result is the exception
  the method throws to its caller. Without a connection the call
  \<^verbatim>\<open>this.connection.query\<close> raises inside the same \<^verbatim>\<open>try\<close>.
\<close>

definition query ::
  "error option \<Rightarrow> (table \<Rightarrow> 'r \<times> table) \<Rightarrow> store \<Rightarrow> (error + 'r option) \<times> store" where
  "query failure stmt s =
     (case connection s of
        None \<Rightarrow> (Inr None, s)
      | Some c \<Rightarrow>
          (case connection_query failure stmt c of
             (Inl error, c') \<Rightarrow> (Inr None, s\<lparr>connection := Some c'\<rparr>)
           | (Inr result, c') \<Rightarrow> (Inr (Some result), s\<lparr>connection := Some c'\<rparr>)))"

subsection \<open>Readiness and construction\<close>

definition onReady :: "nat \<Rightarrow> store \<Rightarrow> (nat \<times> settlement) list \<times> store" where
  "onReady w s =
     (if state s = INITIALIZED then ([(w, Resolved)], s)
      else ([], s\<lparr>onReadyPromises := onReadyPromises s @ [w]\<rparr>))"

definition resolveReadyPromises :: "store \<Rightarrow> (nat \<times> settlement) list \<times> store" where
  "resolveReadyPromises s =
     (map (\<lambda>promise. (promise, Resolved)) (onReadyPromises s), s\<lparr>onReadyPromises := []\<rparr>)"

definition rejectReadyPromises :: "error \<Rightarrow> store \<Rightarrow> (nat \<times> settlement) list \<times> store" where
  "rejectReadyPromises error s =
     (map (\<lambda>promise. (promise, Rejected error)) (onReadyPromises s), s\<lparr>onReadyPromises := []\<rparr>)"

definition createDatabaseTable_op :: "error option \<Rightarrow> store \<Rightarrow> (error + unit option) \<times> store" where
  "createDatabaseTable_op failure s =
     (case query failure sql_create_table s of
        (Inl error, s') \<Rightarrow> (Inl error, s')
      | (Inr result, s') \<Rightarrow> (Inr result, s'))"

text \<open>
  \<^verbatim>\<open>clearExpiredSessions\<close>, one sweep, at the clock reading \<open>clock\<close> (milliseconds).
\<close>

definition clearExpiredSessions :: "error option \<Rightarrow> int \<Rightarrow> store \<Rightarrow> (error + unit option) \<times> store" where
  "clearExpiredSessions failure clock s =
     (case query failure (sql_delete_expired (round_seconds clock)) s of
        (Inl error, s') \<Rightarrow> (Inl error, s')
      | (Inr result, s') \<Rightarrow> (Inr result, s'))"

definition clearExpirationInterval :: "store \<Rightarrow> store" where
  "clearExpirationInterval s = s\<lparr>expirationInterval := None\<rparr>"

text \<open>
  \<^verbatim>\<open>setExpirationInterval\<close> with its default argument: the timer is cleared, one sweep
  is started at once and not awaited, and the timer is armed.
\<close>

definition setExpirationInterval :: "error option \<Rightarrow> int \<Rightarrow> store \<Rightarrow> store" where
  "setExpirationInterval failure clock s =
     (let interval = checkExpirationInterval (options s);
          s1 = clearExpirationInterval s;
          s2 = snd (clearExpiredSessions failure clock s1)
      in s2\<lparr>expirationInterval := Some interval\<rparr>)"

text \<open>
  The promise chain the constructor schedules, run on the store as it is when the chain
  starts: \<open>failure_create\<close> and \<open>failure_sweep\<close> say whether the connection rejects
  the statement that creates the table and the first sweep. The result lists the
  waiters settled, in order.
\<close>

definition initialize ::
  "error option \<Rightarrow> error option \<Rightarrow> int \<Rightarrow> store \<Rightarrow> (nat \<times> settlement) list \<times> store" where
  "initialize failure_create failure_sweep clock s =
     (case (if createDatabaseTable (options s) then createDatabaseTable_op failure_create s
            else (Inr None, s)) of
        (Inl error, s1) \<Rightarrow> rejectReadyPromises error s1
      | (Inr _, s1) \<Rightarrow>
          (let s2 = s1\<lparr>state := INITIALIZED\<rparr>;
               s3 = (if clearExpired (options s2) then setExpirationInterval failure_sweep clock s2
                     else s2)
           in resolveReadyPromises s3))"

text \<open>\<^verbatim>\<open>close\<close>: the connection is ended only under the three tests of the source.\<close>

definition close :: "store \<Rightarrow> store" where
  "close s =
     (let s1 = clearExpirationInterval s
      in if state s1 = INITIALIZED \<and> connection s1 \<noteq> None \<and> endConnectionOnClose (options s1)
         then (let s2 = s1\<lparr>state := CLOSING\<rparr>;
                   s3 = s2\<lparr>connection := map_option (\<lambda>c. c\<lparr>ended := True\<rparr>) (connection s2)\<rparr>
               in s3\<lparr>state := CLOSED\<rparr>)
         else s1)"

subsection \<open>The operations on sessions\<close>

text \<open>
  Each operation reads the clock once (\<open>clock\<close>, \<^verbatim>\<open>Date.now()\<close> in milliseconds) and
  sends one statement, which the connection rejects or not (\<open>failure\<close>). Every
  operation but \<^verbatim>\<open>clear\<close> is \<^verbatim>\<open>async\<close>: its result is the list of the invocations of
  the callback, in order, the error its promise is rejected with (\<open>None\<close> when nothing
  escapes the method), and the store afterwards. \<^verbatim>\<open>JSON.parse\<close> and
  \<^verbatim>\<open>JSON.stringify\<close> are parameters; \<open>None\<close> is the exception they throw.
\<close>

text \<open>
  A callback is given by what it does with the arguments it is invoked with: it returns
  (\<open>None\<close>) or throws an error. \<open>returning\<close> is a callback that returns on every
  invocation.
\<close>

type_synonym 'v callback = "'v call \<Rightarrow> error option"

definition returning :: "'v callback" where
  "returning invocation = None"

text \<open>
  The shape \<^verbatim>\<open>try { ...; return callback(...) } catch (error) { ...; return callback(error) }\<close>
  of \<^verbatim>\<open>get\<close>, \<^verbatim>\<open>set\<close>, \<^verbatim>\<open>touch\<close>, \<^verbatim>\<open>length\<close> and \<^verbatim>\<open>all\<close>. \<open>body\<close> is the
  \<^verbatim>\<open>try\<close> block up to its invocation of the callback: the error it throws before, or
  the invocation it makes. That invocation is inside the \<^verbatim>\<open>try\<close>, so a callback that
  throws is invoked again by the \<^verbatim>\<open>catch\<close> block, with the error it threw; what the
  second invocation throws escapes.
\<close>

definition try_callback :: "'v callback \<Rightarrow> error + 'v call \<Rightarrow> 'v call list \<times> error option" where
  "try_callback callback body =
     (case body of
        Inl error \<Rightarrow> ([Call (Some error) None], callback (Call (Some error) None))
      | Inr invocation \<Rightarrow>
          (case callback invocation of
             None \<Rightarrow> ([invocation], None)
           | Some error \<Rightarrow>
               ([invocation, Call (Some error) None], callback (Call (Some error) None))))"

text \<open>
  The test \<^verbatim>\<open>!!rows\<close> of \<^verbatim>\<open>get\<close>: \<open>rows\<close> is an array, and JavaScript holds
  every array, the empty one too, for true.
\<close>

definition array_truthy :: "'a list \<Rightarrow> bool" where
  "array_truthy xs = True"

text \<open>
  The \<^verbatim>\<open>try\<close> block of \<^verbatim>\<open>get\<close>, from the result of the query up to the invocation
  of the callback. The statement names its two columns \<^verbatim>\<open>data\<close> and \<^verbatim>\<open>expires\<close>,
  whatever the configured names are.
\<close>

definition get_try ::
  "(string \<Rightarrow> 'p option) \<Rightarrow> int \<Rightarrow> error + row list option \<Rightarrow> error + 'p option call" where
  "get_try JSON_parse clock result =
     (case result of
        Inl error \<Rightarrow> Inl error
      | Inr None \<Rightarrow> Inl TypeError
      | Inr (Some rows) \<Rightarrow>
          if array_truthy rows then Inr (Call None None)
          else (let now = round_seconds clock
                in case rows of
                     [] \<Rightarrow> Inl TypeError
                   | row # _ \<Rightarrow>
                       if expires row < now then Inr (Call None None)
                       else (case data row of
                               Some text \<Rightarrow>
                                 (case JSON_parse text of
                                    None \<Rightarrow> Inl SyntaxError
                                  | Some parsed \<Rightarrow> Inr (Call None (Some (Some parsed))))
                             | None \<Rightarrow> Inr (Call None (Some None)))))"

definition get_async ::
  "'p option callback \<Rightarrow> (string \<Rightarrow> 'p option) \<Rightarrow> string \<Rightarrow> int \<Rightarrow> error option \<Rightarrow> store
     \<Rightarrow> 'p option call list \<times> error option \<times> store" where
  "get_async callback JSON_parse session_id clock failure s =
     (case query failure (sql_select_by_id session_id) s of
        (result, s') \<Rightarrow>
          (case try_callback callback (get_try JSON_parse clock result) of
             (calls, thrown) \<Rightarrow> (calls, thrown, s')))"

text \<open>
  The expiry \<^verbatim>\<open>set\<close> and \<^verbatim>\<open>touch\<close> compute, by the same statements in both: the
  local variable starts undefined (\<open>None\<close>), takes a field of the cookie that is truthy,
  is replaced by the clock plus the configured expiration while it is falsy, is made a
  \<^verbatim>\<open>Date\<close> unless it is one (\<open>time\<close> is what \<^verbatim>\<open>getTime()\<close> then returns), and
  is rounded to seconds. The result is \<open>None\<close> when it is \<^verbatim>\<open>NaN\<close>.
\<close>

definition session_expires :: "'a session_data \<Rightarrow> int \<Rightarrow> store_options \<Rightarrow> int option" where
  "session_expires payload clock opts =
     (let expires0 =
            (case cookie payload of
               None \<Rightarrow> None
             | Some c \<Rightarrow>
                 if truthy (cookie_expires c) then Some (cookie_expires c)
                 else if truthy (cookie_uexpires c) then Some (cookie_uexpires c)
                 else None);
          expires1 =
            (case expires0 of
               None \<Rightarrow> JNumber (clock + expiration opts)
             | Some v \<Rightarrow> if \<not> truthy v then JNumber (clock + expiration opts) else v);
          time =
            (case expires1 of
               JDate t \<Rightarrow> TimeClip t
             | v \<Rightarrow> new_Date_getTime v)
      in map_option round_seconds time)"

text \<open>
  The statements of \<^verbatim>\<open>set\<close> and \<^verbatim>\<open>touch\<close> carry the expiry as a value. MySQL has
  no \<^verbatim>\<open>NaN\<close>: a statement that carries it is rejected, whatever the connection does
  otherwise, and has no effect.
\<close>

definition query_with_expiry ::
  "error option \<Rightarrow> int option \<Rightarrow> (int \<Rightarrow> table \<Rightarrow> unit \<times> table) \<Rightarrow> store
     \<Rightarrow> (error + unit option) \<times> store" where
  "query_with_expiry failure expiry stmt s =
     (case expiry of
        None \<Rightarrow> query (Some (or_else failure (QueryError ''NaN''))) (\<lambda>t. ((), t)) s
      | Some e \<Rightarrow> query failure (stmt e) s)"

text \<open>
  \<^verbatim>\<open>set\<close>. The payload argument is \<open>None\<close> when it is \<^verbatim>\<open>null\<close> or undefined: reading
  its \<^verbatim>\<open>cookie\<close> then throws before the \<^verbatim>\<open>try\<close>, as \<^verbatim>\<open>JSON.stringify\<close> does on a
  payload it cannot serialise, and the callback is not invoked.
\<close>

definition set_async ::
  "unit callback \<Rightarrow> ('a session_data \<Rightarrow> string option) \<Rightarrow> string \<Rightarrow> 'a session_data option
     \<Rightarrow> int \<Rightarrow> error option \<Rightarrow> store \<Rightarrow> unit call list \<times> error option \<times> store" where
  "set_async callback JSON_stringify session_id payload_arg clock failure s =
     (case payload_arg of
        None \<Rightarrow> ([], Some TypeError, s)
      | Some payload \<Rightarrow>
          (let expiry = session_expires payload clock (options s)
           in case JSON_stringify payload of
                None \<Rightarrow> ([], Some TypeError, s)
              | Some text \<Rightarrow>
                  (case query_with_expiry failure expiry
                          (\<lambda>e. sql_upsert session_id e text) s of
                     (result, s') \<Rightarrow>
                       (case try_callback callback
                               (case result of
                                  Inl error \<Rightarrow> Inl error
                                | Inr _ \<Rightarrow> Inr (Call None None)) of
                          (calls, thrown) \<Rightarrow> (calls, thrown, s')))))"

definition touch_async ::
  "unit callback \<Rightarrow> string \<Rightarrow> 'a session_data option \<Rightarrow> int \<Rightarrow> error option \<Rightarrow> store
     \<Rightarrow> unit call list \<times> error option \<times> store" where
  "touch_async callback session_id payload_arg clock failure s =
     (if disableTouch (options s) then ([], None, s)
      else (case payload_arg of
              None \<Rightarrow> ([], Some TypeError, s)
            | Some payload \<Rightarrow>
                (let expiry = session_expires payload clock (options s)
                 in case query_with_expiry failure expiry
                           (\<lambda>e. sql_update_expires session_id e) s of
                      (result, s') \<Rightarrow>
                        (case try_callback callback
                                (case result of
                                   Inl error \<Rightarrow> Inl error
                                 | Inr _ \<Rightarrow> Inr (Call None None)) of
                           (calls, thrown) \<Rightarrow> (calls, thrown, s')))))"

text \<open>
  \<^verbatim>\<open>destroy\<close>; \<open>callback\<close> is \<open>None\<close> when no function was passed. Its invocations
  are in the \<^verbatim>\<open>catch\<close> block and after the \<^verbatim>\<open>try\<close> statement, so what the callback
  throws escapes.
\<close>

definition destroy_async ::
  "unit callback option \<Rightarrow> string \<Rightarrow> error option \<Rightarrow> store
     \<Rightarrow> unit call list \<times> error option \<times> store" where
  "destroy_async callback session_id failure s =
     (case query failure (sql_delete_by_id session_id) s of
        (Inl error, s') \<Rightarrow>
          (case callback of
             Some f \<Rightarrow> ([Call (Some error) None], f (Call (Some error) None), s')
           | None \<Rightarrow> ([], None, s'))
      | (Inr _, s') \<Rightarrow>
          (case callback of
             Some f \<Rightarrow> ([Call None None], f (Call None None), s')
           | None \<Rightarrow> ([], None, s')))"

text \<open>\<^verbatim>\<open>rows[0] && rows[0]['COUNT(*)'] || 0\<close>\<close>

definition count_or_zero :: "nat list \<Rightarrow> nat" where
  "count_or_zero rows = (case rows of [] \<Rightarrow> 0 | n # _ \<Rightarrow> if n \<noteq> 0 then n else 0)"

definition length_try :: "error + nat list option \<Rightarrow> error + nat call" where
  "length_try result =
     (case result of
        Inl error \<Rightarrow> Inl error
      | Inr None \<Rightarrow> Inl TypeError
      | Inr (Some rows) \<Rightarrow> Inr (Call None (Some (count_or_zero rows))))"

definition length_async ::
  "nat callback \<Rightarrow> int \<Rightarrow> error option \<Rightarrow> store \<Rightarrow> nat call list \<times> error option \<times> store" where
  "length_async callback clock failure s =
     (case query failure (sql_count_live (round_seconds clock)) s of
        (result, s') \<Rightarrow>
          (case try_callback callback (length_try result) of
             (calls, thrown) \<Rightarrow> (calls, thrown, s')))"

text \<open>
  \<^verbatim>\<open>all\<close> selects with \<^verbatim>\<open>SELECT *\<close>, so the objects it is handed have the columns
  of the table as their keys, under the configured names, and it reads the properties
  \<^verbatim>\<open>session_id\<close> and \<^verbatim>\<open>data\<close> of them. A value of such an object is text, a
  number or \<^verbatim>\<open>NULL\<close>; a property it does not have reads as undefined (\<open>None\<close>).
\<close>

datatype cell = CString string | CNumber int | CNull

text \<open>
  \<^verbatim>\<open>options.schema.columnNames[key]\<close>, as the identifier the statement is given; a
  missing key is undefined and prints as such.
\<close>

definition column :: "store_options \<Rightarrow> string \<Rightarrow> string" where
  "column opts key = or_else (map_of (columnNames (schema opts)) key) ''undefined''"

definition packet :: "store_options \<Rightarrow> string \<times> row \<Rightarrow> (string \<times> cell) list" where
  "packet opts r =
     (case r of
        (sid, values) \<Rightarrow>
          AList.update (column opts ''data'')
            (case data values of None \<Rightarrow> CNull | Some text \<Rightarrow> CString text)
            (AList.update (column opts ''expires'') (CNumber (expires values))
               [(column opts ''session_id'', CString sid)]))"

text \<open>
  The name of the property that \<^verbatim>\<open>sessions[session_id] = data\<close> assigns: the value
  as a string. An integer prints in decimal notation (below \<open>10\<^sup>2\<^sup>1\<close> in magnitude).
\<close>

fun digits :: "nat \<Rightarrow> string" where
  "digits n =
     (if n < 10 then [char_of (48 + n)]
      else digits (n div 10) @ [char_of (48 + n mod 10)])"

definition property_key :: "cell option \<Rightarrow> string" where
  "property_key v =
     (case v of
        None \<Rightarrow> ''undefined''
      | Some CNull \<Rightarrow> ''null''
      | Some (CString text) \<Rightarrow> text
      | Some (CNumber n) \<Rightarrow> if n < 0 then CHR ''-'' # digits (nat (- n)) else digits (nat n))"

text \<open>
  What \<^verbatim>\<open>all\<close> assigns under a session id: the parsed text, or the value as it is when
  it is not text.
\<close>

datatype 'p entry = Parsed 'p | Raw "cell option"

text \<open>
  The body of the \<^verbatim>\<open>forEach\<close> of \<^verbatim>\<open>all\<close>: a row whose text does not parse is left
  out, any other row is assigned under its session id.
\<close>

definition all_row ::
  "store_options \<Rightarrow> (string \<Rightarrow> 'p option) \<Rightarrow> (string \<times> 'p entry) list \<Rightarrow> string \<times> row
     \<Rightarrow> (string \<times> 'p entry) list" where
  "all_row opts JSON_parse sessions r =
     (let row = packet opts r;
          session_id = map_of row ''session_id'';
          payload = map_of row ''data''
      in case payload of
           Some (CString text) \<Rightarrow>
             (case JSON_parse text of
                None \<Rightarrow> sessions
              | Some parsed \<Rightarrow> AList.update (property_key session_id) (Parsed parsed) sessions)
         | other \<Rightarrow> AList.update (property_key session_id) (Raw other) sessions)"

definition all_try ::
  "store_options \<Rightarrow> (string \<Rightarrow> 'p option) \<Rightarrow> error + (string \<times> row) list option
     \<Rightarrow> error + (string \<times> 'p entry) list call" where
  "all_try opts JSON_parse result =
     (case result of
        Inl error \<Rightarrow> Inl error
      | Inr None \<Rightarrow> Inl TypeError
      | Inr (Some rows) \<Rightarrow> Inr (Call None (Some (foldl (all_row opts JSON_parse) [] rows))))"

definition all_async ::
  "(string \<times> 'p entry) list callback \<Rightarrow> (string \<Rightarrow> 'p option) \<Rightarrow> int \<Rightarrow> error option \<Rightarrow> store
     \<Rightarrow> (string \<times> 'p entry) list call list \<times> error option \<times> store" where
  "all_async callback JSON_parse clock failure s =
     (case query failure (sql_select_live (round_seconds clock)) s of
        (result, s') \<Rightarrow>
          (case try_callback callback (all_try (options s) JSON_parse result) of
             (calls, thrown) \<Rightarrow> (calls, thrown, s')))"

text \<open>
  \<^verbatim>\<open>clear\<close> is not \<^verbatim>\<open>async\<close> and does not await the query: the call of
  \<^verbatim>\<open>this.query\<close> returns a promise and raises nothing, so the \<^verbatim>\<open>catch\<close> block, the
  only place that calls the callback, is not entered.
\<close>

definition clear :: "bool \<Rightarrow> error option \<Rightarrow> store \<Rightarrow> unit call list \<times> store" where
  "clear callback failure s =
     (case query failure sql_delete_all s of
        (_, s') \<Rightarrow> ([], s'))"

subsection \<open>Operations with a callback that returns\<close>

text \<open>
  The operations as a caller sees them who passes a callback that returns on every
  invocation, a payload that is an object and a \<^verbatim>\<open>JSON.stringify\<close> that accepts it:
  the invocations of the callback and the store afterwards. For \<^verbatim>\<open>destroy\<close>,
  \<open>callback\<close> says whether a function was passed.
\<close>

definition get ::
  "(string \<Rightarrow> 'p option) \<Rightarrow> string \<Rightarrow> int \<Rightarrow> error option \<Rightarrow> store
     \<Rightarrow> 'p option call list \<times> store" where
  "get JSON_parse session_id clock failure s =
     (case get_async returning JSON_parse session_id clock failure s of
        (calls, thrown, s') \<Rightarrow> (calls, s'))"

definition set_op ::
  "('a session_data \<Rightarrow> string) \<Rightarrow> string \<Rightarrow> 'a session_data \<Rightarrow> int \<Rightarrow> error option \<Rightarrow> store
     \<Rightarrow> unit call list \<times> store" where
  "set_op JSON_stringify session_id payload clock failure s =
     (case set_async returning (\<lambda>p. Some (JSON_stringify p)) session_id (Some payload)
             clock failure s of
        (calls, thrown, s') \<Rightarrow> (calls, s'))"

definition touch ::
  "string \<Rightarrow> 'a session_data \<Rightarrow> int \<Rightarrow> error option \<Rightarrow> store \<Rightarrow> unit call list \<times> store" where
  "touch session_id payload clock failure s =
     (case touch_async returning session_id (Some payload) clock failure s of
        (calls, thrown, s') \<Rightarrow> (calls, s'))"

definition destroy ::
  "string \<Rightarrow> bool \<Rightarrow> error option \<Rightarrow> store \<Rightarrow> unit call list \<times> store" where
  "destroy session_id callback failure s =
     (case destroy_async (if callback then Some returning else None) session_id failure s of
        (calls, thrown, s') \<Rightarrow> (calls, s'))"

definition length_op :: "int \<Rightarrow> error option \<Rightarrow> store \<Rightarrow> nat call list \<times> store" where
  "length_op clock failure s =
     (case length_async returning clock failure s of
        (calls, thrown, s') \<Rightarrow> (calls, s'))"

definition all_op ::
  "(string \<Rightarrow> 'p option) \<Rightarrow> int \<Rightarrow> error option \<Rightarrow> store
     \<Rightarrow> (string \<times> 'p entry) list call list \<times> store" where
  "all_op JSON_parse clock failure s =
     (case all_async returning JSON_parse clock failure s of
        (calls, thrown, s') \<Rightarrow> (calls, s'))"

text \<open>The rows of the table behind the store's connection.\<close>

definition table_of :: "store \<Rightarrow> table" where
  "table_of s = (case connection s of None \<Rightarrow> [] | Some c \<Rightarrow> tbl c)"

subsection \<open>Example inputs\<close>

text \<open>
  A connection to an empty table, a payload whose cookie expires at 5000 seconds, the
  options object \<^verbatim>\<open>{}\<close>, and the store built from them once it is ready.
\<close>

definition example_db :: db where
  "example_db = \<lparr> tbl = [], issued = 0, ended = False \<rparr>"

definition example_payload :: "unit session_data" where
  "example_payload =
     \<lparr> cookie = Some \<lparr> cookie_expires = JDate 5000000, cookie_uexpires = JNull \<rparr>,
       content = () \<rparr>"

definition no_options :: user_options where
  "no_options =
     \<lparr> u_clearExpired = None, u_checkExpirationInterval = None, u_expiration = None,
       u_createDatabaseTable = None, u_endConnectionOnClose = None, u_disableTouch = None,
       u_charset = None, u_schema = None \<rparr>"

definition example_store :: store where
  "example_store =
     \<lparr> state = INITIALIZED,
       connection = Some \<lparr> tbl = [], issued = 2, ended = False \<rparr>,
       options = defaultOptions\<lparr>endConnectionOnClose := False\<rparr>,
       onReadyPromises = [],
       expirationInterval = Some 900000 \<rparr>"

definition example_store_no_touch :: store where
  "example_store_no_touch =
     example_store\<lparr>options := (options example_store)\<lparr>disableTouch := True\<rparr>\<rparr>"

definition bogus_options :: user_options where
  "bogus_options =
     no_options\<lparr>u_schema :=
       Some \<lparr> u_tableName = None, u_columnNames = Some [(''bogus'', ''x'')] \<rparr>\<rparr>"

subsection \<open>Notions of the specification\<close>

text \<open>The error argument of an invocation of a callback.\<close>

fun call_error :: "'v call \<Rightarrow> error option" where
  "call_error (Call e r) = e"

text \<open>
  Whole Unix seconds as the specification words them, \<^verbatim>\<open>round(ms / 1000)\<close>: the
  quotient is a real number, and \<open>round\<close> takes it to the nearest integer, a half
  upwards.
\<close>

definition whole_seconds :: "int \<Rightarrow> int" where
  "whole_seconds ms = round (real_of_int ms / 1000)"

text \<open>
  The instant the specification prefers, in milliseconds: the cookie's \<^verbatim>\<open>expires\<close> if
  it is set, else its \<^verbatim>\<open>_expires\<close> if that is set, else the clock plus the configured
  expiration. A field is set when JavaScript holds it for true.
\<close>

fun instant :: "jsval \<Rightarrow> int" where
  "instant JNull = 0"
| "instant (JNumber n) = n"
| "instant (JDate t) = t"

definition chosen_instant :: "'a session_data \<Rightarrow> int \<Rightarrow> store_options \<Rightarrow> int" where
  "chosen_instant payload clock opts =
     (case cookie payload of
        None \<Rightarrow> clock + expiration opts
      | Some c \<Rightarrow>
          if truthy (cookie_expires c) then instant (cookie_expires c)
          else if truthy (cookie_uexpires c) then instant (cookie_uexpires c)
          else clock + expiration opts)"

definition expiry_by_preference :: "'a session_data \<Rightarrow> int \<Rightarrow> store_options \<Rightarrow> int" where
  "expiry_by_preference payload clock opts = whole_seconds (chosen_instant payload clock opts)"

text \<open>The instants a \<^verbatim>\<open>Date\<close> can hold: at most 8.64e15 milliseconds from the epoch.\<close>

definition in_Date_range :: "int \<Rightarrow> bool" where
  "in_Date_range t = (\<bar>t\<bar> \<le> 8640000000000000)"

text \<open>A row that \<^verbatim>\<open>all\<close> can decode: its payload is \<^verbatim>\<open>NULL\<close> or text that parses.\<close>

definition decodes :: "(string \<Rightarrow> 'p option) \<Rightarrow> row \<Rightarrow> bool" where
  "decodes JSON_parse r =
     (case data r of None \<Rightarrow> True | Some text \<Rightarrow> JSON_parse text \<noteq> None)"

text \<open>
  The configurations under which the objects \<^verbatim>\<open>all\<close> is handed have the properties
  it reads: the columns of the session id and of the payload keep their default names,
  and the column of the expiry does not take the name \<^verbatim>\<open>session_id\<close>.
\<close>

definition default_row_names :: "store_options \<Rightarrow> bool" where
  "default_row_names opts =
     (column opts ''session_id'' = ''session_id'' \<and> column opts ''data'' = ''data''
      \<and> column opts ''expires'' \<noteq> ''session_id'')"

text \<open>A table for the examples: one row that expires at 1000 s, one at 999 s.\<close>

definition example_table :: table where
  "example_table =
     [(''a'', \<lparr> expires = 1000, data = Some ''{}'' \<rparr>),
      (''b'', \<lparr> expires = 999, data = Some ''{}'' \<rparr>)]"

text \<open>A store whose session id column is renamed to \<^verbatim>\<open>sid\<close>, over the example table.\<close>

definition example_store_renamed :: store where
  "example_store_renamed =
     example_store
       \<lparr>connection := Some \<lparr> tbl = example_table, issued = 2, ended = False \<rparr>,
        options := (options example_store)
          \<lparr>schema := \<lparr> tableName = ''sessions'',
                       columnNames = [(''session_id'', ''sid''), (''expires'', ''expires''),
                                      (''data'', ''data'')] \<rparr>\<rparr>\<rparr>"

section \<open>Properties\<close>

subsection \<open>The query primitive never throws\<close>

lemma query_Some:
  "connection s = Some c \<Longrightarrow>
   query failure stmt s =
     (case failure of
        Some e \<Rightarrow> (Inr None, s\<lparr>connection := Some (c\<lparr>issued := Suc (issued c)\<rparr>)\<rparr>)
      | None \<Rightarrow> (Inr (Some (fst (stmt (tbl c)))),
                 s\<lparr>connection := Some (c\<lparr>tbl := snd (stmt (tbl c)), issued := Suc (issued c)\<rparr>)\<rparr>))"
  by (simp add: query_def connection_query_def split: option.splits prod.splits)

lemma query_None: "connection s = None \<Longrightarrow> query failure stmt s = (Inr None, s)"
  by (simp add: query_def)

lemma query_returns: "\<exists>r s'. query failure stmt s = (Inr r, s')"
  by (cases "connection s") (auto simp: query_None query_Some split: option.splits)

lemma query_options: "options (snd (query failure stmt s)) = options s"
  by (cases "connection s") (auto simp: query_None query_Some split: option.splits)

lemma query_state: "state (snd (query failure stmt s)) = state s"
  by (cases "connection s") (auto simp: query_None query_Some split: option.splits)

lemma query_waiters: "onReadyPromises (snd (query failure stmt s)) = onReadyPromises s"
  by (cases "connection s") (auto simp: query_None query_Some split: option.splits)

lemma query_connected: "(connection (snd (query failure stmt s)) = None) = (connection s = None)"
  by (cases "connection s") (auto simp: query_None query_Some split: option.splits)

lemma table_of_query_failed: "table_of (snd (query (Some e) stmt s)) = table_of s"
  by (cases "connection s") (auto simp: query_None query_Some table_of_def)

lemma table_of_query_ok:
  "connection s = Some c \<Longrightarrow> table_of (snd (query None stmt s)) = snd (stmt (tbl c))"
  by (simp add: query_Some table_of_def)

lemma query_with_expiry_returns:
  "\<exists>r s'. query_with_expiry failure expiry stmt s = (Inr r, s')"
  using query_returns by (cases expiry) (simp_all add: query_with_expiry_def)

subsection \<open>The operations with a callback that returns\<close>

text \<open>
  With a callback that returns, the \<^verbatim>\<open>try\<close> shape makes the one invocation its body
  leads to, and nothing escapes.
\<close>

lemma try_callback_returning:
  "try_callback returning body
     = ([case body of Inl error \<Rightarrow> Call (Some error) None | Inr invocation \<Rightarrow> invocation], None)"
  by (simp add: try_callback_def returning_def split: sum.splits)

lemma get_unfold:
  "get JSON_parse session_id clock failure s =
     (case query failure (sql_select_by_id session_id) s of
        (result, s') \<Rightarrow>
          (case get_try JSON_parse clock result of
             Inl error \<Rightarrow> ([Call (Some error) None], s')
           | Inr invocation \<Rightarrow> ([invocation], s')))"
  by (simp add: get_def get_async_def try_callback_returning split: prod.splits sum.splits)

lemma set_op_unfold:
  "set_op JSON_stringify session_id payload clock failure s =
     (case query_with_expiry failure (session_expires payload clock (options s))
             (\<lambda>e. sql_upsert session_id e (JSON_stringify payload)) s of
        (Inl error, s') \<Rightarrow> ([Call (Some error) None], s')
      | (Inr _, s') \<Rightarrow> ([Call None None], s'))"
  by (simp add: set_op_def set_async_def try_callback_returning Let_def
      split: prod.splits sum.splits)

lemma touch_unfold:
  "touch session_id payload clock failure s =
     (if disableTouch (options s) then ([], s)
      else (case query_with_expiry failure (session_expires payload clock (options s))
                   (\<lambda>e. sql_update_expires session_id e) s of
              (Inl error, s') \<Rightarrow> ([Call (Some error) None], s')
            | (Inr _, s') \<Rightarrow> ([Call None None], s')))"
  by (simp add: touch_def touch_async_def try_callback_returning Let_def
      split: prod.splits sum.splits)

lemma destroy_unfold:
  "destroy session_id callback failure s =
     (case query failure (sql_delete_by_id session_id) s of
        (Inl error, s') \<Rightarrow> (if callback then [Call (Some error) None] else [], s')
      | (Inr _, s') \<Rightarrow> (if callback then [Call None None] else [], s'))"
  by (simp add: destroy_def destroy_async_def returning_def split: prod.splits sum.splits)

lemma length_op_unfold:
  "length_op clock failure s =
     (case query failure (sql_count_live (round_seconds clock)) s of
        (result, s') \<Rightarrow>
          (case length_try result of
             Inl error \<Rightarrow> ([Call (Some error) None], s')
           | Inr invocation \<Rightarrow> ([invocation], s')))"
  by (simp add: length_op_def length_async_def try_callback_returning
      split: prod.splits sum.splits)

lemma all_op_unfold:
  "all_op JSON_parse clock failure s =
     (case query failure (sql_select_live (round_seconds clock)) s of
        (result, s') \<Rightarrow>
          (case all_try (options s) JSON_parse result of
             Inl error \<Rightarrow> ([Call (Some error) None], s')
           | Inr invocation \<Rightarrow> ([invocation], s')))"
  by (simp add: all_op_def all_async_def try_callback_returning
      split: prod.splits sum.splits)

lemmas eval_defs =
  constructor_def options_set_def merged_options_def validateOptions_def spread_def
  defaultOptions_def or_else_def initialize_def createDatabaseTable_op_def
  setExpirationInterval_def clearExpirationInterval_def clearExpiredSessions_def
  resolveReadyPromises_def rejectReadyPromises_def query_def connection_query_def
  sql_create_table_def sql_delete_expired_def sql_upsert_def sql_select_by_id_def
  sql_update_expires_def sql_delete_by_id_def sql_count_live_def sql_select_live_def
  sql_delete_all_def round_seconds_def session_expires_def table_of_def
  example_db_def example_payload_def no_options_def example_store_def close_def onReady_def
  example_store_no_touch_def bogus_options_def TimeClip_def query_with_expiry_def

text \<open>
  The example store is the one the constructor and the initialisation chain build from the
  options object \<^verbatim>\<open>{}\<close> and the example connection.
\<close>

lemma example_store_built:
  "map_sum id (\<lambda>s. snd (initialize None None 1000000 s))
     (constructor (Some no_options) (Some example_db)) = Inr example_store"
  by (simp add: eval_defs Let_def)

subsection \<open>Initialisation\<close>

lemma sweep_fields:
  "state (snd (clearExpiredSessions failure clock s)) = state s"
  "options (snd (clearExpiredSessions failure clock s)) = options s"
  "onReadyPromises (snd (clearExpiredSessions failure clock s)) = onReadyPromises s"
  "(connection (snd (clearExpiredSessions failure clock s)) = None) = (connection s = None)"
  using query_returns [of failure "sql_delete_expired (round_seconds clock)" s]
    query_state [of failure "sql_delete_expired (round_seconds clock)" s]
    query_options [of failure "sql_delete_expired (round_seconds clock)" s]
    query_waiters [of failure "sql_delete_expired (round_seconds clock)" s]
    query_connected [of failure "sql_delete_expired (round_seconds clock)" s]
  by (auto simp: clearExpiredSessions_def)

lemma setExpirationInterval_fields:
  "state (setExpirationInterval failure clock s) = state s"
  "options (setExpirationInterval failure clock s) = options s"
  "onReadyPromises (setExpirationInterval failure clock s) = onReadyPromises s"
  "(connection (setExpirationInterval failure clock s) = None) = (connection s = None)"
  by (simp_all add: setExpirationInterval_def Let_def sweep_fields clearExpirationInterval_def)

lemma createDatabaseTable_returns:
  "\<exists>r s'. createDatabaseTable_op failure s = (Inr r, s')
     \<and> state s' = state s \<and> options s' = options s
     \<and> onReadyPromises s' = onReadyPromises s
     \<and> (connection s' = None) = (connection s = None)"
  using query_returns [of failure sql_create_table s]
    query_state [of failure sql_create_table s]
    query_options [of failure sql_create_table s]
    query_waiters [of failure sql_create_table s]
    query_connected [of failure sql_create_table s]
  by (auto simp: createDatabaseTable_op_def)

lemma initialize_always_ready:
  "state (snd (initialize failure_create failure_sweep clock s)) = INITIALIZED
   \<and> fst (initialize failure_create failure_sweep clock s)
       = map (\<lambda>w. (w, Resolved)) (onReadyPromises s)
   \<and> options (snd (initialize failure_create failure_sweep clock s)) = options s
   \<and> (connection (snd (initialize failure_create failure_sweep clock s)) = None)
       = (connection s = None)"
proof -
  obtain r s1 where c: "createDatabaseTable_op failure_create s = (Inr r, s1)"
    and f: "state s1 = state s" "options s1 = options s"
      "onReadyPromises s1 = onReadyPromises s" "(connection s1 = None) = (connection s = None)"
    using createDatabaseTable_returns [of failure_create s] by auto
  show ?thesis
    using c f
    by (simp add: initialize_def Let_def resolveReadyPromises_def setExpirationInterval_fields)
qed

text \<open>
  The store built with the defaults around the example connection, one waiter pending,
  and a connection that rejects the statement creating the table: the statement and the
  first sweep are sent, the store is ready and the waiter is resolved.
\<close>

lemma pending_waiter_resolved_after_failure:
  "map_sum id (\<lambda>s. case initialize (Some (QueryError ''down'')) None 1000000 (snd (onReady 1 s)) of
                      (settled, s') \<Rightarrow> (settled, state s', map_option issued (connection s')))
     (constructor None (Some example_db))
   = Inr ([(1, Resolved)], INITIALIZED, Some 2)"
  by (simp add: eval_defs Let_def)

text \<open>
  C3. The claim: if the table-creation step during construction fails, every pending
  \<^verbatim>\<open>onReady\<close> waiter is rejected with that error and the state never becomes
  \<^verbatim>\<open>INITIALIZED\<close>. On the code the opposite happens: \<^verbatim>\<open>query\<close> catches the rejection
  of the connection and returns, so \<^verbatim>\<open>createDatabaseTable\<close> has nothing to rethrow.
  When the connection rejects the statement that creates the table with any error \<open>e\<close>,
  the store becomes \<^verbatim>\<open>INITIALIZED\<close> and every pending waiter is resolved.
\<close>

theorem failed_table_creation_resolves_waiters:
  "state (snd (initialize (Some e) failure_sweep clock s)) = INITIALIZED
   \<and> fst (initialize (Some e) failure_sweep clock s)
       = map (\<lambda>w. (w, Resolved)) (onReadyPromises s)"
  using initialize_always_ready [of "Some e" failure_sweep clock s] by simp

subsection \<open>Reading a session back\<close>

text \<open>
  Whenever the query of \<^verbatim>\<open>get\<close> succeeds, the test \<^verbatim>\<open>!!rows\<close> holds and the
  callback is told that the session was not found, whatever the table holds.
\<close>

lemma get_never_delivers:
  "connection s = Some c \<Longrightarrow>
     fst (get JSON_parse session_id clock None s) = [Call None None]"
  by (simp add: get_unfold get_try_def array_truthy_def query_Some)

text \<open>
  C1. The claim: after a successful \<^verbatim>\<open>set(id, data)\<close>, and while the stored expiry is
  in the future, \<^verbatim>\<open>get(id)\<close> calls back with a value equal to \<open>data\<close>; repeated
  \<^verbatim>\<open>set\<close> calls converge to one row. The code stores the row but does not read it
  back: on the example store, \<^verbatim>\<open>set\<close> of the example payload under \<^verbatim>\<open>abc\<close> at
  clock 1000000 ms leaves the single row with expiry 5000 s, which is after 1000 s, and
  \<^verbatim>\<open>get\<close> of \<^verbatim>\<open>abc\<close> at the same clock calls back with no value.
\<close>

theorem get_after_set_finds_nothing:
  "(let s1 = snd (set_op (\<lambda>d. ''{}'') ''abc'' example_payload 1000000 None example_store)
    in table_of s1 = [(''abc'', \<lparr> expires = 5000, data = Some ''{}'' \<rparr>)]
       \<and> round_seconds 1000000 < 5000
       \<and> fst (get (\<lambda>t. Some example_payload) ''abc'' 1000000 None s1) = [Call None None])"
  by (simp add: set_op_unfold get_unfold get_try_def array_truthy_def eval_defs Let_def)

subsection \<open>Failures of the query\<close>

text \<open>
  The three operations that destructure the result of the query report a
  \<^verbatim>\<open>TypeError\<close> when the connection rejects the statement, not the error of the
  connection.
\<close>

lemma failed_read_reports_TypeError:
  "fst (get JSON_parse sid clock (Some e) (s\<lparr>connection := Some c\<rparr>))
     = [Call (Some TypeError) None]
   \<and> fst (length_op clock (Some e) (s\<lparr>connection := Some c\<rparr>))
     = [Call (Some TypeError) None]
   \<and> fst (all_op JSON_parse clock (Some e) (s\<lparr>connection := Some c\<rparr>))
     = [Call (Some TypeError) None]"
  by (simp add: get_unfold get_try_def length_op_unfold length_try_def all_op_unfold all_try_def
      query_Some)

text \<open>
  C2. The claim: when the query of a CRUD operation fails, the operation does not throw
  and its callback receives that error; the callback receives a non-null error exactly
  when the query failed. On the code, \<^verbatim>\<open>set\<close>, \<^verbatim>\<open>touch\<close> (when not disabled) and
  \<^verbatim>\<open>destroy\<close> call back without an error when the connection rejects their statement
  with any error \<open>e\<close>: \<^verbatim>\<open>query\<close> has caught it, and their own \<^verbatim>\<open>catch\<close> blocks
  are never entered.
\<close>

theorem failed_write_reports_success:
  "fst (set_op JSON_stringify sid payload clock (Some e) s) = [Call None None]
   \<and> fst (touch sid payload clock (Some e) (s\<lparr>options := (options s)\<lparr>disableTouch := False\<rparr>\<rparr>))
       = [Call None None]
   \<and> fst (destroy sid True (Some e) s) = [Call None None]"
proof -
  have a: "fst (set_op JSON_stringify sid payload clock (Some e) s) = [Call None None]"
    using query_with_expiry_returns [of "Some e" "session_expires payload clock (options s)"
        "\<lambda>x. sql_upsert sid x (JSON_stringify payload)" s]
    by (auto simp: set_op_unfold)
  let ?s = "s\<lparr>options := (options s)\<lparr>disableTouch := False\<rparr>\<rparr>"
  have b: "fst (touch sid payload clock (Some e) ?s) = [Call None None]"
    using query_with_expiry_returns [of "Some e" "session_expires payload clock (options ?s)"
        "\<lambda>x. sql_update_expires sid x" ?s]
    by (auto simp: touch_unfold)
  have c: "fst (destroy sid True (Some e) s) = [Call None None]"
    using query_returns [of "Some e" "sql_delete_by_id sid" s]
    by (auto simp: destroy_unfold)
  from a b c show ?thesis by simp
qed

subsection \<open>Ownership of the connection\<close>

lemma close_keeps_connection:
  "\<not> endConnectionOnClose (options s) \<Longrightarrow> connection (close s) = connection s"
  by (simp add: close_def clearExpirationInterval_def Let_def)

text \<open>
  When an options object is passed, the setter runs and the flag is false, whatever the
  object says, and \<^verbatim>\<open>close\<close> leaves the connection open.
\<close>

lemma constructor_with_options_disowns:
  assumes "constructor (Some u) (Some c) = Inr s"
  shows "\<not> endConnectionOnClose (options s)"
    and "connection (close (snd (initialize failure_create failure_sweep clock s)))
           = connection (snd (initialize failure_create failure_sweep clock s))"
proof -
  show d: "\<not> endConnectionOnClose (options s)"
    using assms
    by (auto simp: constructor_def options_set_def merged_options_def Let_def
        split: sum.splits)
  show "connection (close (snd (initialize failure_create failure_sweep clock s)))
           = connection (snd (initialize failure_create failure_sweep clock s))"
    using d initialize_always_ready [of failure_create failure_sweep clock s]
    by (simp add: close_keeps_connection)
qed

text \<open>
  C5. The claim: for every construction with an externally supplied connection, with or
  without an options object, the effective \<^verbatim>\<open>endConnectionOnClose\<close> is false, so
  \<^verbatim>\<open>close()\<close> never ends a connection the store did not create. The constructor calls
  the setter only when an options object is passed. Constructed with a connection \<open>c\<close>
  and no options object, the store keeps the default \<^verbatim>\<open>endConnectionOnClose = true\<close>,
  and \<^verbatim>\<open>close\<close> after initialisation ends the connection it was given.
\<close>

theorem close_ends_external_connection_without_options:
  "(case constructor None (Some c) of
      Inl e \<Rightarrow> False
    | Inr s \<Rightarrow>
        endConnectionOnClose (options s)
        \<and> state (close (snd (initialize failure_create failure_sweep clock s))) = CLOSED
        \<and> map_option ended
              (connection (close (snd (initialize failure_create failure_sweep clock s))))
            = Some True)"
  by (simp add: eval_defs Let_def split: option.splits)

lemma constructor_without_touch_built:
  "map_sum id (\<lambda>s. snd (initialize None None 1000000 s))
     (constructor (Some (no_options\<lparr>u_disableTouch := Some True\<rparr>)) (Some example_db))
   = Inr example_store_no_touch"
  by (simp add: eval_defs Let_def)

subsection \<open>Invocations of the completion callback\<close>

lemma once_get:
  "length (fst (get_async returning JSON_parse sid clock failure s)) = 1"
  "fst (snd (get_async returning JSON_parse sid clock failure s)) = None"
  by (simp_all add: get_async_def try_callback_returning split: prod.splits)

lemma once_set:
  assumes "JSON_stringify payload \<noteq> None"
  shows "length (fst (set_async returning JSON_stringify sid (Some payload) clock failure s)) = 1"
    and "fst (snd (set_async returning JSON_stringify sid (Some payload) clock failure s)) = None"
  using assms
  by (auto simp: set_async_def try_callback_returning Let_def split: prod.splits)

lemma once_touch:
  "length (fst (touch_async returning sid (Some payload) clock failure s))
     = (if disableTouch (options s) then 0 else 1)"
  "fst (snd (touch_async returning sid (Some payload) clock failure s)) = None"
  by (simp_all add: touch_async_def try_callback_returning Let_def split: prod.splits)

lemma once_destroy:
  "length (fst (destroy_async (Some returning) sid failure s)) = 1"
  "fst (snd (destroy_async (Some returning) sid failure s)) = None"
  by (simp_all add: destroy_async_def returning_def split: prod.splits sum.splits)

lemma once_length:
  "length (fst (length_async returning clock failure s)) = 1"
  "fst (snd (length_async returning clock failure s)) = None"
  by (simp_all add: length_async_def try_callback_returning split: prod.splits)

lemma once_all:
  "length (fst (all_async returning JSON_parse clock failure s)) = 1"
  "fst (snd (all_async returning JSON_parse clock failure s)) = None"
  by (simp_all add: all_async_def try_callback_returning split: prod.splits)

text \<open>
  When the query succeeds on a store with a connection, \<^verbatim>\<open>set\<close>, \<^verbatim>\<open>touch\<close>,
  \<^verbatim>\<open>destroy\<close>, \<^verbatim>\<open>length\<close> and \<^verbatim>\<open>all\<close> invoke the callback with a null error.
\<close>

lemma success_null_error:
  "JSON_stringify payload \<noteq> None \<Longrightarrow>
     map call_error (fst (set_async returning JSON_stringify sid (Some payload) clock None
                            (s\<lparr>connection := Some c\<rparr>))) = [None]"
  "map call_error (fst (touch_async returning sid (Some payload) clock None
                          (s\<lparr>connection := Some c\<rparr>)))
     = (if disableTouch (options s) then [] else [None])"
  "map call_error (fst (destroy_async (Some returning) sid None (s\<lparr>connection := Some c\<rparr>)))
     = [None]"
  "map call_error (fst (length_async returning clock None (s\<lparr>connection := Some c\<rparr>))) = [None]"
  "map call_error (fst (all_async returning JSON_parse clock None (s\<lparr>connection := Some c\<rparr>)))
     = [None]"
proof -
  obtain r s' where q: "query_with_expiry None (session_expires payload clock (options s))
      (\<lambda>e. sql_upsert sid e (the (JSON_stringify payload))) (s\<lparr>connection := Some c\<rparr>) = (Inr r, s')"
    using query_with_expiry_returns by blast
  show "JSON_stringify payload \<noteq> None \<Longrightarrow>
     map call_error (fst (set_async returning JSON_stringify sid (Some payload) clock None
                            (s\<lparr>connection := Some c\<rparr>))) = [None]"
    using q by (auto simp: set_async_def try_callback_returning Let_def)
  obtain r2 s2 where q2: "query_with_expiry None (session_expires payload clock (options s))
      (\<lambda>e. sql_update_expires sid e) (s\<lparr>connection := Some c\<rparr>) = (Inr r2, s2)"
    using query_with_expiry_returns by blast
  show "map call_error (fst (touch_async returning sid (Some payload) clock None
                          (s\<lparr>connection := Some c\<rparr>)))
     = (if disableTouch (options s) then [] else [None])"
    using q2 by (simp add: touch_async_def try_callback_returning Let_def)
  show "map call_error (fst (destroy_async (Some returning) sid None (s\<lparr>connection := Some c\<rparr>)))
     = [None]"
    by (simp add: destroy_async_def query_Some)
  show "map call_error (fst (length_async returning clock None (s\<lparr>connection := Some c\<rparr>)))
     = [None]"
    by (simp add: length_async_def length_try_def try_callback_returning query_Some)
  show "map call_error (fst (all_async returning JSON_parse clock None (s\<lparr>connection := Some c\<rparr>)))
     = [None]"
    by (simp add: all_async_def all_try_def try_callback_returning query_Some)
qed

text \<open>
  \<^verbatim>\<open>clear\<close> does not invoke its callback, whether the query succeeds or not.
\<close>

lemma clear_never_calls_back: "fst (clear callback failure s) = []"
  by (simp add: clear_def split: prod.splits)

text \<open>
  A callback that throws is invoked twice by \<^verbatim>\<open>set\<close>, the second time with the error
  it threw, and a payload that is \<^verbatim>\<open>null\<close> leaves the callback without invocation:
  both throw out of the method.
\<close>

lemma throwing_callback_invoked_twice:
  "set_async (\<lambda>invocation. Some TypeError) (\<lambda>p. Some ''{}'') ''abc'' (Some example_payload)
       1000000 None example_store
     = ([Call None None, Call (Some TypeError) None], Some TypeError,
        example_store\<lparr>connection :=
          Some \<lparr> tbl = [(''abc'', \<lparr> expires = 5000, data = Some ''{}'' \<rparr>)],
                 issued = 3, ended = False \<rparr>\<rparr>)"
  by (simp add: set_async_def try_callback_def eval_defs Let_def)

lemma null_payload_never_calls_back:
  "set_async callback JSON_stringify sid None clock failure s = ([], Some TypeError, s)"
  "\<not> disableTouch (options s) \<Longrightarrow>
     touch_async callback sid None clock failure s = ([], Some TypeError, s)"
  by (simp_all add: set_async_def touch_async_def)

text \<open>
  C4, as stated, fails: the claim has the callback invoked exactly once by every
  operation, also by \<^verbatim>\<open>touch\<close> when touch is disabled. On the store built with
  \<^verbatim>\<open>{disableTouch: true}\<close>, \<^verbatim>\<open>touch\<close> returns at its first statement and the callback
  is not invoked.
\<close>

theorem touch_disabled_never_calls_back:
  "\<not> length (fst (touch ''abc'' example_payload 1000000 None example_store_no_touch)) = 1"
  by (simp add: touch_unfold example_store_no_touch_def)

text \<open>
  C4, amended: \<^verbatim>\<open>get\<close>, \<^verbatim>\<open>set\<close>, \<^verbatim>\<open>destroy\<close>, \<^verbatim>\<open>length\<close> and \<^verbatim>\<open>all\<close>, called
  with a callback that returns, and \<^verbatim>\<open>set\<close> with a payload that is an object
  \<^verbatim>\<open>JSON.stringify\<close> accepts, invoke the callback exactly once whether the query
  succeeds or fails, and nothing is thrown; \<^verbatim>\<open>touch\<close>, with a payload that is an
  object, does so when touch is not disabled, and when touch is disabled it does nothing
  and does not invoke the callback. When the query of \<^verbatim>\<open>set\<close>, \<^verbatim>\<open>touch\<close>,
  \<^verbatim>\<open>destroy\<close>, \<^verbatim>\<open>length\<close> or \<^verbatim>\<open>all\<close> succeeds on a store with a connection, the
  error argument of the invocation is null. Nothing is said of \<^verbatim>\<open>clear\<close>, of a
  callback that throws, or of the arguments \<^verbatim>\<open>get\<close> passes.
\<close>

theorem callback_invoked_once:
  assumes "JSON_stringify payload \<noteq> None"
  shows
   "length (fst (get_async returning JSON_parse sid clock failure s)) = 1
    \<and> fst (snd (get_async returning JSON_parse sid clock failure s)) = None
    \<and> length (fst (set_async returning JSON_stringify sid (Some payload) clock failure s)) = 1
    \<and> fst (snd (set_async returning JSON_stringify sid (Some payload) clock failure s)) = None
    \<and> length (fst (touch_async returning sid (Some payload) clock failure s))
        = (if disableTouch (options s) then 0 else 1)
    \<and> fst (snd (touch_async returning sid (Some payload) clock failure s)) = None
    \<and> length (fst (destroy_async (Some returning) sid failure s)) = 1
    \<and> fst (snd (destroy_async (Some returning) sid failure s)) = None
    \<and> length (fst (length_async returning clock failure s)) = 1
    \<and> fst (snd (length_async returning clock failure s)) = None
    \<and> length (fst (all_async returning JSON_parse' clock failure s)) = 1
    \<and> fst (snd (all_async returning JSON_parse' clock failure s)) = None
    \<and> map call_error (fst (set_async returning JSON_stringify sid (Some payload) clock None
                             (s\<lparr>connection := Some c\<rparr>))) = [None]
    \<and> map call_error (fst (touch_async returning sid (Some payload) clock None
                             (s\<lparr>connection := Some c\<rparr>)))
        = (if disableTouch (options s) then [] else [None])
    \<and> map call_error (fst (destroy_async (Some returning) sid None (s\<lparr>connection := Some c\<rparr>)))
        = [None]
    \<and> map call_error (fst (length_async returning clock None (s\<lparr>connection := Some c\<rparr>)))
        = [None]
    \<and> map call_error (fst (all_async returning JSON_parse' clock None (s\<lparr>connection := Some c\<rparr>)))
        = [None]"
  using assms
  by (simp only: once_get once_set once_touch once_destroy once_length once_all
      success_null_error simp_thms not_False_eq_True)

text \<open>
  The amended C4 on the example store, where touch is enabled, with the example payload
  and a \<^verbatim>\<open>JSON.stringify\<close> that accepts it: \<^verbatim>\<open>set\<close> and \<^verbatim>\<open>touch\<close> invoke the
  callback once, with a null error, and throw nothing.
\<close>

theorem callback_invoked_once_witness:
  "(\<lambda>p. Some ''{}'') example_payload \<noteq> None
   \<and> \<not> disableTouch (options example_store)
   \<and> length (fst (set_async returning (\<lambda>p. Some ''{}'') ''abc'' (Some example_payload)
                    1000000 None example_store)) = 1
   \<and> fst (snd (set_async returning (\<lambda>p. Some ''{}'') ''abc'' (Some example_payload)
                  1000000 None example_store)) = None
   \<and> length (fst (touch_async returning ''abc'' (Some example_payload) 1000000 None
                    example_store)) = 1
   \<and> map call_error (fst (touch_async returning ''abc'' (Some example_payload) 1000000 None
                            example_store)) = [None]"
proof -
  have e: "example_store\<lparr>connection := Some \<lparr> tbl = [], issued = 2, ended = False \<rparr>\<rparr>
      = example_store"
    by (simp add: example_store_def)
  have d: "\<not> disableTouch (options example_store)"
    by (simp add: example_store_def defaultOptions_def)
  have j: "(\<lambda>p. Some ''{}'') example_payload \<noteq> None" by simp
  show ?thesis
    using d j callback_invoked_once [where s = example_store and sid = "''abc''"
        and clock = 1000000 and failure = None
        and c = "\<lparr> tbl = [], issued = 2, ended = False \<rparr>"
        and payload = example_payload
        and JSON_stringify = "\<lambda>p. Some ''{}''"
        and JSON_parse = "\<lambda>text. Some example_payload"
        and JSON_parse' = "\<lambda>text. Some example_payload"]
    unfolding e by simp
qed

subsection \<open>Validation of the column names\<close>

lemma spread_keys: "fst ` set (spread base over) = fst ` set base \<union> fst ` set over"
  unfolding spread_def
proof (induction over arbitrary: base)
  case Nil
  show ?case by simp
next
  case (Cons x xs)
  obtain a b where x: "x = (a, b)" by (cases x)
  show ?case
    using Cons.IH [of "AList.update a b base"]
    by (simp add: x AList.dom_update)
qed

lemma validate_unknown:
  assumes "k \<in> fst ` set (columnNames (schema (options s)))"
    and "k \<notin> {''session_id'', ''expires'', ''data''}"
  shows "\<exists>k'. validateOptions s = Inl (UnknownColumn k')
            \<and> k' \<in> fst ` set (columnNames (schema (options s)))
            \<and> k' \<notin> {''session_id'', ''expires'', ''data''}"
proof -
  let ?P = "\<lambda>x. x \<notin> set (map fst (columnNames (schema defaultOptions)))"
  let ?xs = "map fst (columnNames (schema (options s)))"
  have al: "set (map fst (columnNames (schema defaultOptions)))
      = {''session_id'', ''expires'', ''data''}"
    by (simp add: defaultOptions_def)
  have "filter ?P ?xs \<noteq> []"
    using assms al by (auto simp: filter_empty_conv)
  then obtain k' rest where f: "filter ?P ?xs = k' # rest"
    by (auto simp: neq_Nil_conv)
  have "k' \<in> set (filter ?P ?xs)"
    by (metis f list.set_intros(1))
  then have "k' \<in> set ?xs" "?P k'" by simp_all
  with f al show ?thesis
    by (auto simp: validateOptions_def Let_def)
qed

lemma validate_ok:
  "validateOptions s = Inr () \<Longrightarrow>
     fst ` set (columnNames (schema (options s))) \<subseteq> {''session_id'', ''expires'', ''data''}"
  by (auto simp: validateOptions_def Let_def defaultOptions_def filter_empty_conv
      split: list.splits)

lemma merged_columns:
  "u_schema u = Some us \<Longrightarrow> u_columnNames us = Some cols \<Longrightarrow>
     fst ` set (columnNames (schema (merged_options u s)))
       = {''session_id'', ''expires'', ''data''} \<union> fst ` set cols"
  by (auto simp: merged_options_def spread_keys or_else_def defaultOptions_def)

lemma validate_depends_on_columns:
  "columnNames (schema (options s)) = columnNames (schema (options s')) \<Longrightarrow>
     validateOptions s = validateOptions s'"
  by (simp add: validateOptions_def)

text \<open>
  C6. For every configuration whose \<^verbatim>\<open>schema.columnNames\<close> has a key \<open>k\<close> other than
  \<^verbatim>\<open>session_id\<close>, \<^verbatim>\<open>expires\<close> and \<^verbatim>\<open>data\<close>, setting it raises the configuration
  error for an unknown column, synchronously and before any statement is sent: the
  setter returns the error and leaves the connection as it was (no statement issued),
  and the constructor throws the same error, so that no store exists whose
  initialisation could send one.
\<close>

theorem unknown_column_rejected:
  assumes "u_schema u = Some us" and "u_columnNames us = Some cols"
    and "k \<in> fst ` set cols" and "k \<notin> {''session_id'', ''expires'', ''data''}"
  shows "\<exists>k'. k' \<notin> {''session_id'', ''expires'', ''data''}
           \<and> fst (options_set u s) = Inl (UnknownColumn k')
           \<and> connection (snd (options_set u s)) = connection s
           \<and> constructor (Some u) (Some c) = Inl (UnknownColumn k')"
proof -
  let ?s' = "s\<lparr>options := merged_options u s\<rparr>"
  have "k \<in> fst ` set (columnNames (schema (options ?s')))"
    using assms merged_columns [of u us cols s] by simp
  then obtain k' where v: "validateOptions ?s' = Inl (UnknownColumn k')"
    and k': "k' \<notin> {''session_id'', ''expires'', ''data''}"
    using validate_unknown [of k ?s'] assms(4) by blast
  let ?s0 = "\<lparr> state = INITIALIZING, connection = Some c, options = defaultOptions,
               onReadyPromises = [], expirationInterval = None \<rparr>"
  have "validateOptions (?s0\<lparr>options := merged_options u ?s0\<rparr>) = validateOptions ?s'"
    by (rule validate_depends_on_columns) (simp add: merged_options_def)
  with v have "constructor (Some u) (Some c) = Inl (UnknownColumn k')"
    by (simp add: constructor_def options_set_def Let_def)
  with v k' show ?thesis
    by (auto simp: options_set_def Let_def)
qed

text \<open>
  C6 on the configuration \<^verbatim>\<open>{schema: {columnNames: {bogus: 'x'}}}\<close>: the key
  \<^verbatim>\<open>bogus\<close> is among its column names and is not allowed, and both the setter on the
  example store and the constructor raise the error.
\<close>

theorem unknown_column_rejected_witness:
  "u_schema bogus_options = Some \<lparr> u_tableName = None, u_columnNames = Some [(''bogus'', ''x'')] \<rparr>
   \<and> ''bogus'' \<in> fst ` set [(''bogus'', ''x'')]
   \<and> ''bogus'' \<notin> {''session_id'', ''expires'', ''data''}
   \<and> (\<exists>k'. k' \<notin> {''session_id'', ''expires'', ''data''}
           \<and> fst (options_set bogus_options example_store) = Inl (UnknownColumn k')
           \<and> connection (snd (options_set bogus_options example_store))
               = connection example_store
           \<and> constructor (Some bogus_options) (Some example_db) = Inl (UnknownColumn k'))"
  using unknown_column_rejected [of bogus_options
      "\<lparr> u_tableName = None, u_columnNames = Some [(''bogus'', ''x'')] \<rparr>"
      "[(''bogus'', ''x'')]" "''bogus''" example_store example_db]
  by (simp add: bogus_options_def no_options_def)

text \<open>
  C10. The setter is not atomic: for every configuration with an unknown column key, the
  setter ends with the validation error and the store's options field holds the merged
  configuration, which contains an unknown key; the options in force before are not put
  back, so that when they were valid the field has changed.
\<close>

theorem options_replaced_before_validation_error:
  assumes "u_schema u = Some us" and "u_columnNames us = Some cols"
    and "k \<in> fst ` set cols" and "k \<notin> {''session_id'', ''expires'', ''data''}"
  shows "\<exists>k'. options_set u s = (Inl (UnknownColumn k'), s\<lparr>options := merged_options u s\<rparr>)
           \<and> k' \<in> fst ` set (columnNames (schema (options (snd (options_set u s)))))
           \<and> k' \<notin> {''session_id'', ''expires'', ''data''}
           \<and> (validateOptions s = Inr () \<longrightarrow> options (snd (options_set u s)) \<noteq> options s)"
proof -
  let ?s' = "s\<lparr>options := merged_options u s\<rparr>"
  have kin: "k \<in> fst ` set (columnNames (schema (options ?s')))"
    using assms merged_columns [of u us cols s] by simp
  then obtain k' where v: "validateOptions ?s' = Inl (UnknownColumn k')"
    and k': "k' \<notin> {''session_id'', ''expires'', ''data''}"
    and kin': "k' \<in> fst ` set (columnNames (schema (options ?s')))"
    using validate_unknown [of k ?s'] assms(4) by blast
  have os: "options_set u s = (Inl (UnknownColumn k'), ?s')"
    using v by (simp add: options_set_def Let_def)
  have "options ?s' \<noteq> options s" if ok: "validateOptions s = Inr ()"
  proof
    assume "options ?s' = options s"
    then have "k \<in> fst ` set (columnNames (schema (options s)))" using kin by simp
    with validate_ok [OF ok] assms(4) show False by blast
  qed
  with os k' kin' show ?thesis by simp
qed

text \<open>
  C10 on the example store, whose options are valid, and the configuration with the key
  \<^verbatim>\<open>bogus\<close>: after the setter has thrown, the field holds the merged configuration with
  that key and differs from the options before.
\<close>

theorem options_replaced_before_validation_error_witness:
  "u_schema bogus_options = Some \<lparr> u_tableName = None, u_columnNames = Some [(''bogus'', ''x'')] \<rparr>
   \<and> ''bogus'' \<in> fst ` set [(''bogus'', ''x'')]
   \<and> ''bogus'' \<notin> {''session_id'', ''expires'', ''data''}
   \<and> validateOptions example_store = Inr ()
   \<and> (\<exists>k'. options_set bogus_options example_store
             = (Inl (UnknownColumn k'),
                example_store\<lparr>options := merged_options bogus_options example_store\<rparr>)
           \<and> k' \<in> fst ` set (columnNames (schema (options
                   (snd (options_set bogus_options example_store)))))
           \<and> k' \<notin> {''session_id'', ''expires'', ''data''})
   \<and> options (snd (options_set bogus_options example_store)) \<noteq> options example_store"
proof -
  have ok: "validateOptions example_store = Inr ()"
    by (simp add: validateOptions_def example_store_def defaultOptions_def)
  have us: "u_schema bogus_options
      = Some \<lparr> u_tableName = None, u_columnNames = Some [(''bogus'', ''x'')] \<rparr>"
    by (simp add: bogus_options_def no_options_def)
  show ?thesis
    using ok us options_replaced_before_validation_error [of bogus_options
        "\<lparr> u_tableName = None, u_columnNames = Some [(''bogus'', ''x'')] \<rparr>"
        "[(''bogus'', ''x'')]" "''bogus''" example_store]
    by auto
qed

subsection \<open>Whole seconds\<close>

lemma whole_seconds_eq: "whole_seconds ms = (ms + 500) div 1000"
proof -
  have "real_of_int ms / 1000 + 1 / 2 = real_of_int (ms + 500) / real_of_int 1000"
    by simp
  then have "round (real_of_int ms / 1000) = \<lfloor>real_of_int (ms + 500) / real_of_int 1000\<rfloor>"
    by (simp only: round_def)
  also have "\<dots> = (ms + 500) div 1000"
    by (rule floor_divide_of_int_eq)
  finally show ?thesis by (simp only: whole_seconds_def)
qed

text \<open>The rounding of the code is \<^verbatim>\<open>round(ms / 1000)\<close> on real numbers.\<close>

lemma round_seconds_whole: "round_seconds ms = whole_seconds ms"
  by (simp only: round_seconds_def whole_seconds_eq)

subsection \<open>The stored expiry\<close>

text \<open>
  The expiry the code computes is the preferred instant in whole seconds when that
  instant is one a \<^verbatim>\<open>Date\<close> can hold, and \<^verbatim>\<open>NaN\<close> otherwise.
\<close>

lemma session_expires_by_preference:
  "session_expires payload clock opts
     = (if in_Date_range (chosen_instant payload clock opts)
        then Some (expiry_by_preference payload clock opts) else None)"
proof (cases "cookie payload")
  case None
  then show ?thesis
    by (simp add: session_expires_def chosen_instant_def expiry_by_preference_def
        in_Date_range_def TimeClip_def round_seconds_whole)
next
  case (Some c)
  then show ?thesis
    by (cases "cookie_expires c"; cases "cookie_uexpires c")
      (simp_all add: session_expires_def chosen_instant_def expiry_by_preference_def
        in_Date_range_def TimeClip_def round_seconds_whole)
qed


lemma update_expires_data:
  "map (\<lambda>(k, r). (k, data r))
     (map (\<lambda>(k, r). if k = sid then (k, r\<lparr>expires := e\<rparr>) else (k, r)) t)
     = map (\<lambda>(k, r). (k, data r)) t"
  by (induction t) auto

lemma update_expires_others:
  "filter (\<lambda>(k, r). k \<noteq> sid)
     (map (\<lambda>(k, r). if k = sid then (k, r\<lparr>expires := e\<rparr>) else (k, r)) t)
     = filter (\<lambda>(k, r). k \<noteq> sid) t"
  by (induction t) auto


text \<open>
  The table after a statement that carries the expiry: the statement has run when the
  connection did not reject it and the expiry is a number.
\<close>

lemma table_of_query_with_expiry:
  "table_of (snd (query_with_expiry failure expiry (\<lambda>e. sql_update_expires sid e) s))
     = (case expiry of
          None \<Rightarrow> table_of s
        | Some e \<Rightarrow> if failure \<noteq> None then table_of s
                    else snd (sql_update_expires sid e (table_of s)))"
proof (cases "connection s")
  case None
  then show ?thesis
    by (cases expiry)
      (simp_all add: query_with_expiry_def query_None table_of_def sql_update_expires_def)
next
  case (Some c)
  then show ?thesis
    by (cases expiry; cases failure)
      (simp_all add: query_with_expiry_def query_Some table_of_def or_else_def)
qed

lemma table_of_touch_async:
  "table_of (snd (snd (touch_async callback sid (Some payload) clock failure s)))
     = (if disableTouch (options s) then table_of s
        else table_of (snd (query_with_expiry failure (session_expires payload clock (options s))
                              (\<lambda>e. sql_update_expires sid e) s)))"
  by (simp add: touch_async_def Let_def split: prod.splits)

lemma table_of_touch:
  "table_of (snd (touch sid payload clock failure s))
     = (if disableTouch (options s) then table_of s
        else table_of (snd (query_with_expiry failure (session_expires payload clock (options s))
                              (\<lambda>e. sql_update_expires sid e) s)))"
  by (simp add: touch_unfold split: prod.splits sum.splits)

text \<open>
  What \<^verbatim>\<open>touch\<close> leaves in the table does not depend on the callback, and a payload
  that is \<^verbatim>\<open>null\<close> leaves the table as it was.
\<close>

lemma table_of_touch_async_any:
  "table_of (snd (snd (touch_async callback sid payload_arg clock failure s)))
     = (case payload_arg of
          None \<Rightarrow> table_of s
        | Some payload \<Rightarrow> table_of (snd (touch sid payload clock failure s)))"
proof (cases payload_arg)
  case None
  then show ?thesis by (simp add: touch_async_def)
next
  case (Some payload)
  then show ?thesis by (simp add: table_of_touch_async table_of_touch)
qed




text \<open>
  Beyond the range of \<^verbatim>\<open>Date\<close> the code computes \<^verbatim>\<open>NaN\<close>: with a cookie whose
  \<^verbatim>\<open>expires\<close> is the number 9e15, no expiry is computed.
\<close>

lemma expiry_out_of_range:
  "session_expires \<lparr> cookie = Some \<lparr> cookie_expires = JNumber 9000000000000000,
                                     cookie_uexpires = JNull \<rparr>, content = () \<rparr>
     1000000 (options example_store) = None"
  by (simp add: session_expires_def TimeClip_def)

subsection \<open>The frame of touch\<close>

text \<open>
  C9. For every session id and payload, \<^verbatim>\<open>touch\<close> changes at most the expiry of the
  rows of that id: the session ids and payloads of all rows, in order, are as before,
  and so are the rows of every other id. This holds whether the row exists or not,
  whether touch is disabled or not, and whether the query succeeds or not.
\<close>

theorem touch_changes_only_expires:
  "map (\<lambda>(k, r). (k, data r)) (table_of (snd (touch sid payload clock failure s)))
     = map (\<lambda>(k, r). (k, data r)) (table_of s)
   \<and> filter (\<lambda>(k, r). k \<noteq> sid) (table_of (snd (touch sid payload clock failure s)))
     = filter (\<lambda>(k, r). k \<noteq> sid) (table_of s)"
proof (cases "disableTouch (options s) \<or> failure \<noteq> None
    \<or> session_expires payload clock (options s) = None")
  case True
  then show ?thesis
    by (auto simp: table_of_touch table_of_query_with_expiry split: option.splits)
next
  case False
  then obtain e where e: "session_expires payload clock (options s) = Some e"
    by auto
  have t: "table_of (snd (touch sid payload clock failure s))
      = map (\<lambda>(k, r). if k = sid then (k, r\<lparr>expires := e\<rparr>) else (k, r)) (table_of s)"
    using False e
    by (simp add: table_of_touch table_of_query_with_expiry sql_update_expires_def)
  show ?thesis
    unfolding t by (simp only: update_expires_data update_expires_others simp_thms)
qed

subsection \<open>The boundary of expiry\<close>

text \<open>
  Under the default names of the two columns it reads, \<^verbatim>\<open>all\<close> finds the session id
  and the payload of a row.
\<close>

lemma packet_default_names:
  assumes "default_row_names opts"
  shows "map_of (packet opts (k, r)) ''session_id'' = Some (CString k)"
    and "map_of (packet opts (k, r)) ''data''
           = Some (case data r of None \<Rightarrow> CNull | Some text \<Rightarrow> CString text)"
  using assms
  by (auto simp: packet_def default_row_names_def AList.update_conv')

lemma all_row_step:
  assumes "default_row_names opts"
  shows "fst ` set (all_row opts JSON_parse acc (k, r))
     = fst ` set acc \<union> (if decodes JSON_parse r then {k} else {})"
  by (simp add: all_row_def Let_def packet_default_names [OF assms] decodes_def
      property_key_def AList.dom_update split: option.splits)

lemma all_row_keys:
  assumes "default_row_names opts"
  shows "fst ` set (foldl (all_row opts JSON_parse) acc rs)
     = fst ` set acc \<union> {k. \<exists>r. (k, r) \<in> set rs \<and> decodes JSON_parse r}"
proof (induction rs arbitrary: acc)
  case Nil
  show ?case by simp
next
  case (Cons x xs)
  obtain k r where x: "x = (k, r)" by (cases x)
  have "fst ` set (foldl (all_row opts JSON_parse) acc (x # xs))
      = fst ` set acc \<union> (if decodes JSON_parse r then {k} else {})
          \<union> {k. \<exists>r. (k, r) \<in> set xs \<and> decodes JSON_parse r}"
    using Cons.IH [of "all_row opts JSON_parse acc (k, r)"]
    by (simp only: x foldl_Cons all_row_step [OF assms])
  also have "\<dots> = fst ` set acc \<union> {k. \<exists>r. (k, r) \<in> set (x # xs) \<and> decodes JSON_parse r}"
    unfolding x by auto
  finally show ?case .
qed

text \<open>
  With the session id column renamed to \<^verbatim>\<open>sid\<close>, the objects \<^verbatim>\<open>all\<close> is handed
  have no property \<^verbatim>\<open>session_id\<close>: the one live row of the example table is assigned
  under the key \<^verbatim>\<open>undefined\<close>.
\<close>

lemma all_with_renamed_column:
  "fst (all_op (\<lambda>text. Some ()) 999500 None example_store_renamed)
     = [Call None (Some [(''undefined'', Parsed ())])]"
  by (simp add: all_op_unfold all_try_def all_row_def packet_def column_def property_key_def
      example_store_renamed_def example_table_def eval_defs Let_def)

text \<open>
  C8. With the clock in whole seconds, \<^verbatim>\<open>round(ms / 1000)\<close> on real numbers, a sweep
  whose query succeeds leaves exactly the rows whose expiry is not strictly less than the
  clock, so a row whose expiry equals the clock survives; \<^verbatim>\<open>length\<close> counts exactly
  the rows whose expiry is greater than or equal to the clock, and \<^verbatim>\<open>all\<close> builds its
  result from exactly those rows. Where the columns that \<^verbatim>\<open>all\<close> reads keep their
  default names, the keys of its result are the session ids of the rows with such an
  expiry that decode.
\<close>

theorem expiry_boundary:
  "table_of (snd (clearExpiredSessions None clock (s\<lparr>connection := Some c\<rparr>)))
     = filter (\<lambda>(k, r). \<not> expires r < whole_seconds clock) (tbl c)
   \<and> ((k, r) \<in> set (table_of (snd (clearExpiredSessions None clock (s\<lparr>connection := Some c\<rparr>))))
       \<longleftrightarrow> (k, r) \<in> set (tbl c) \<and> whole_seconds clock \<le> expires r)
   \<and> fst (length_op clock None (s\<lparr>connection := Some c\<rparr>))
     = [Call None (Some (length (filter (\<lambda>(k, r). whole_seconds clock \<le> expires r) (tbl c))))]
   \<and> fst (all_op JSON_parse clock None (s\<lparr>connection := Some c\<rparr>))
     = [Call None (Some (foldl (all_row (options s) JSON_parse) []
                           (filter (\<lambda>(k, r). whole_seconds clock \<le> expires r) (tbl c))))]
   \<and> (default_row_names (options s) \<longrightarrow>
        (k' \<in> fst ` set (foldl (all_row (options s) JSON_parse) []
                            (filter (\<lambda>(k, r). whole_seconds clock \<le> expires r) (tbl c)))
         \<longleftrightarrow> (\<exists>r'. (k', r') \<in> set (tbl c) \<and> whole_seconds clock \<le> expires r'
                    \<and> decodes JSON_parse r')))"
proof -
  have a: "table_of (snd (clearExpiredSessions None clock (s\<lparr>connection := Some c\<rparr>)))
     = filter (\<lambda>(k, r). \<not> expires r < whole_seconds clock) (tbl c)"
    by (simp add: clearExpiredSessions_def query_Some table_of_def sql_delete_expired_def
        round_seconds_whole)
  have b: "fst (length_op clock None (s\<lparr>connection := Some c\<rparr>))
     = [Call None (Some (length (filter (\<lambda>(k, r). whole_seconds clock \<le> expires r) (tbl c))))]"
    by (simp add: length_op_unfold length_try_def query_Some sql_count_live_def
        count_or_zero_def round_seconds_whole)
  have d: "fst (all_op JSON_parse clock None (s\<lparr>connection := Some c\<rparr>))
     = [Call None (Some (foldl (all_row (options s) JSON_parse) []
                           (filter (\<lambda>(k, r). whole_seconds clock \<le> expires r) (tbl c))))]"
    by (simp add: all_op_unfold all_try_def query_Some sql_select_live_def round_seconds_whole)
  have e: "(k' \<in> fst ` set (foldl (all_row (options s) JSON_parse) []
                           (filter (\<lambda>(k, r). whole_seconds clock \<le> expires r) (tbl c)))
        \<longleftrightarrow> (\<exists>r'. (k', r') \<in> set (tbl c) \<and> whole_seconds clock \<le> expires r'
                   \<and> decodes JSON_parse r'))"
    if n: "default_row_names (options s)"
    by (simp add: all_row_keys [OF n])
  have a': "((k, r) \<in> set (table_of (snd (clearExpiredSessions None clock
                (s\<lparr>connection := Some c\<rparr>))))
        \<longleftrightarrow> (k, r) \<in> set (tbl c) \<and> whole_seconds clock \<le> expires r)"
    unfolding a by auto
  from a a' b d e show ?thesis by blast
qed

text \<open>
  C8 on the example store over the example table, at the clock 999500 ms, which is
  1000 s: the row that expires at 1000 s survives the sweep and the row that expires at
  999 s is deleted, \<^verbatim>\<open>length\<close> counts one row, and \<^verbatim>\<open>all\<close> returns the row
  \<^verbatim>\<open>a\<close> alone.
\<close>

theorem expiry_boundary_witness:
  "default_row_names (options example_store)
   \<and> whole_seconds 999500 = 1000
   \<and> table_of (snd (clearExpiredSessions None 999500
        (example_store\<lparr>connection := Some \<lparr> tbl = example_table, issued = 2, ended = False \<rparr>\<rparr>)))
      = [(''a'', \<lparr> expires = 1000, data = Some ''{}'' \<rparr>)]
   \<and> fst (length_op 999500 None
        (example_store\<lparr>connection := Some \<lparr> tbl = example_table, issued = 2, ended = False \<rparr>\<rparr>))
      = [Call None (Some 1)]
   \<and> fst (all_op (\<lambda>text. Some ()) 999500 None
        (example_store\<lparr>connection := Some \<lparr> tbl = example_table, issued = 2, ended = False \<rparr>\<rparr>))
      = [Call None (Some [(''a'', Parsed ())])]"
proof -
  have n: "default_row_names (options example_store)"
    by (simp add: default_row_names_def column_def example_store_def defaultOptions_def
        or_else_def)
  have w: "whole_seconds 999500 = 1000"
    by (simp add: whole_seconds_eq)
  have r: "foldl (all_row (options example_store) (\<lambda>text. Some ())) []
             [(''a'', \<lparr> expires = 1000, data = Some ''{}'' \<rparr>)] = [(''a'', Parsed ())]"
    by (simp add: all_row_def packet_def column_def property_key_def example_store_def
        defaultOptions_def or_else_def Let_def)
  show ?thesis
    using n w r expiry_boundary [where s = example_store and clock = 999500
        and c = "\<lparr> tbl = example_table, issued = 2, ended = False \<rparr>"
        and JSON_parse = "\<lambda>text. Some ()" and k = "''a''" and k' = "''a''"
        and r = "\<lparr> expires = 1000, data = Some ''{}'' \<rparr>"]
    by (simp add: example_table_def)
qed

subsection \<open>Repeated set\<close>

lemma filter_update_distinct:
  "distinct (map fst t) \<Longrightarrow> filter (\<lambda>(k, r). k = sid) (AList.update sid v t) = [(sid, v)]"
proof (induction t)
  case Nil
  show ?case by simp
next
  case (Cons p ps)
  obtain k r where p: "p = (k, r)" by (cases p)
  show ?case
  proof (cases "k = sid")
    case True
    then have "sid \<notin> fst ` set ps" using Cons.prems p by simp
    then have "filter (\<lambda>(k, r). k = sid) ps = []"
      by (force simp: filter_empty_conv)
    then show ?thesis using True p by simp
  next
    case False
    then show ?thesis using Cons p by simp
  qed
qed

text \<open>
  On a table whose session ids are distinct (the primary key), two calls of \<^verbatim>\<open>set\<close>
  with the same id and payload leave one row of that id, with the expiry and data of
  the second call.
\<close>

lemma repeated_set_single_row:
  assumes "distinct (map fst (tbl c))"
    and "in_Date_range (chosen_instant payload clock1 (options s))"
    and "in_Date_range (chosen_instant payload clock2 (options s))"
  shows "filter (\<lambda>(k, r). k = sid)
           (table_of (snd (set_op JSON_stringify sid payload clock2 None
              (snd (set_op JSON_stringify sid payload clock1 None (s\<lparr>connection := Some c\<rparr>))))))
         = [(sid, \<lparr> expires = expiry_by_preference payload clock2 (options s),
                    data = Some (JSON_stringify payload) \<rparr>)]"
  using assms
  by (simp add: set_op_unfold query_with_expiry_def query_Some sql_upsert_def table_of_def
      session_expires_by_preference filter_update_distinct)

end
